theory Spec2Isabelle
  imports Main
begin

section \<open>JavaScript strings\<close>

text \<open>
  The texts of the portal's pages and the reference number are modelled as
  \<^typ>\<open>string\<close>; a character stands for the code point of the same number (U+0000
  to U+00FF). A company code, which reaches the registry as the caller wrote it, is a
  list of Unicode code points (see below). A value that may be \<open>undefined\<close> is an option,
  \<open>None\<close> being \<open>undefined\<close>.

  \<open>String.prototype.trim\<close> removes white space and line terminators at both ends. In
  the modelled range these are U+0009 to U+000D, U+0020 and U+00A0.
\<close>

definition isWhiteSpace :: "char \<Rightarrow> bool" where
  "isWhiteSpace c =
     (let n = (of_char c :: nat) in (9 \<le> n \<and> n \<le> 13) \<or> n = 32 \<or> n = 160)"

definition trim :: "string \<Rightarrow> string" where
  "trim s = rev (dropWhile isWhiteSpace (rev (dropWhile isWhiteSpace s)))"

text \<open>
  \<open>toLowerCase\<close> on the texts of the pages and on the keys of the registry: the letters
  \<open>A\<close> to \<open>Z\<close> become \<open>a\<close> to \<open>z\<close>, every other character of the modelled range is
  left as it is. (JavaScript also maps the accented capitals of that range, to
  characters outside ASCII, so a search for an ASCII text in a lower-cased label gives
  the same answer in the model.)
\<close>

definition toLowerChar :: "char \<Rightarrow> char" where
  "toLowerChar c =
     (let n = (of_char c :: nat) in if 65 \<le> n \<and> n \<le> 90 then char_of (n + 32) else c)"

definition toLowerCase :: "string \<Rightarrow> string" where
  "toLowerCase s = map toLowerChar s"

text \<open>\<open>s.includes(p)\<close>: the text \<open>p\<close> occurs in \<open>s\<close> as a contiguous run.\<close>

definition startsWith :: "string \<Rightarrow> string \<Rightarrow> bool" where
  "startsWith s p = (take (length p) s = p)"

fun includes_str :: "string \<Rightarrow> string \<Rightarrow> bool" where
  "includes_str [] p = (p = [])"
| "includes_str (c # cs) p = (startsWith (c # cs) p \<or> includes_str cs p)"

text \<open>\<open>xs.join(sep)\<close> on an array of strings.\<close>

fun join :: "string \<Rightarrow> string list \<Rightarrow> string" where
  "join sep [] = []"
| "join sep [x] = x"
| "join sep (x # y # ys) = x @ sep @ join sep (y # ys)"

text \<open>
  The only regular expression of the program is \<open>/^\d{10,14}$/\<close>. Without flags, \<open>\d\<close> is
  an ASCII digit and \<open>$\<close> is the end of the input, so \<open>test\<close> holds exactly for a run of
  digits whose length is within the bounds.
\<close>

datatype regex = DigitsBetween nat nat

definition isDigit :: "char \<Rightarrow> bool" where
  "isDigit c = (let n = (of_char c :: nat) in 48 \<le> n \<and> n \<le> 57)"

fun test :: "regex \<Rightarrow> string \<Rightarrow> bool" where
  "test (DigitsBetween lo hi) s = (lo \<le> length s \<and> length s \<le> hi \<and> list_all isDigit s)"


section \<open>Company codes as code points\<close>

text \<open>
  A company code is a list of Unicode code points. \<open>codePoints\<close> gives the code points
  of a text of the range U+0000 to U+00FF.
\<close>

definition codePoints :: "string \<Rightarrow> nat list" where
  "codePoints s = map of_char s"

text \<open>
  \<open>String.prototype.toUpperCase\<close>, code point by code point, with the full case
  mapping of Unicode for U+0000 to U+017F (Basic Latin, Latin-1 Supplement and Latin
  Extended-A): one code point may become several (U+00DF becomes \<open>SS\<close>, U+0149
  becomes U+02BC and \<open>N\<close>), and two code points outside ASCII become ASCII letters:
  U+0131 (dotless i) becomes \<open>I\<close> and U+017F (long s) becomes \<open>S\<close>.

  A code point above U+017F is left as it is. In JavaScript its upper case either
  holds a code point outside ASCII or is one of \<open>FF\<close>, \<open>FI\<close>, \<open>FL\<close>, \<open>FFI\<close>, \<open>FFL\<close>
  and \<open>ST\<close> (the ligatures U+FB00 to U+FB06); no key of the registry holds one of
  these, so the lookup of a code with such a code point fails in the program as it
  does in the model.
\<close>

definition upperCodePoint :: "nat \<Rightarrow> nat list" where
  "upperCodePoint n =
     (if 97 \<le> n \<and> n \<le> 122 then [n - 32]
      else if n = 181 then [924]
      else if n = 223 then [83, 83]
      else if 224 \<le> n \<and> n \<le> 254 \<and> n \<noteq> 247 then [n - 32]
      else if n = 255 then [376]
      else if 256 \<le> n \<and> n \<le> 303 \<and> odd n then [n - 1]
      else if n = 305 then [73]
      else if 306 \<le> n \<and> n \<le> 311 \<and> odd n then [n - 1]
      else if 313 \<le> n \<and> n \<le> 328 \<and> even n then [n - 1]
      else if n = 329 then [700, 78]
      else if 330 \<le> n \<and> n \<le> 375 \<and> odd n then [n - 1]
      else if 377 \<le> n \<and> n \<le> 382 \<and> even n then [n - 1]
      else if n = 383 then [83]
      else [n])"

definition toUpperCase :: "nat list \<Rightarrow> nat list" where
  "toUpperCase s = concat (map upperCodePoint s)"

text \<open>
  \<open>String.prototype.toLowerCase\<close> on the same range; U+0130 becomes \<open>i\<close> and U+0307.
  (Above U+017F the only code point whose lower case is an ASCII letter is U+212A,
  which becomes \<open>k\<close>; no registered code holds \<open>k\<close>.) The program does not lower-case
  a company code; this is the lower-cased form of which the properties speak.
\<close>

definition lowerCodePoint :: "nat \<Rightarrow> nat list" where
  "lowerCodePoint n =
     (if 65 \<le> n \<and> n \<le> 90 then [n + 32]
      else if 192 \<le> n \<and> n \<le> 222 \<and> n \<noteq> 215 then [n + 32]
      else if 256 \<le> n \<and> n \<le> 303 \<and> even n then [n + 1]
      else if n = 304 then [105, 775]
      else if 306 \<le> n \<and> n \<le> 311 \<and> even n then [n + 1]
      else if 313 \<le> n \<and> n \<le> 328 \<and> odd n then [n + 1]
      else if 330 \<le> n \<and> n \<le> 375 \<and> even n then [n + 1]
      else if n = 376 then [255]
      else if 377 \<le> n \<and> n \<le> 382 \<and> odd n then [n + 1]
      else [n])"

definition toLowerCase_code :: "nat list \<Rightarrow> nat list" where
  "toLowerCase_code s = concat (map lowerCodePoint s)"


section \<open>The company registry\<close>

record descriptor =
  co_name :: string
  co_code :: string
  co_url :: string
  co_refPattern :: regex

text \<open>
  \<open>COMPANIES\<close> is an object literal; its keys are kept in the order they are written,
  which is the order \<open>Object.keys\<close> gives.
\<close>

definition COMPANIES :: "(string \<times> descriptor) list" where
  "COMPANIES =
    [(''HESCO'', \<lparr>co_name = ''Hyderabad Electric Supply Company'', co_code = ''hesco'',
        co_url = ''https://bill.pitc.com.pk/hescobill'', co_refPattern = DigitsBetween 10 14\<rparr>),
     (''LESCO'', \<lparr>co_name = ''Lahore Electric Supply Company'', co_code = ''lesco'',
        co_url = ''https://bill.pitc.com.pk/lescobill'', co_refPattern = DigitsBetween 10 14\<rparr>),
     (''FESCO'', \<lparr>co_name = ''Faisalabad Electric Supply Company'', co_code = ''fesco'',
        co_url = ''https://bill.pitc.com.pk/fescobill'', co_refPattern = DigitsBetween 10 14\<rparr>),
     (''IESCO'', \<lparr>co_name = ''Islamabad Electric Supply Company'', co_code = ''iesco'',
        co_url = ''https://bill.pitc.com.pk/iescobill'', co_refPattern = DigitsBetween 10 14\<rparr>),
     (''MEPCO'', \<lparr>co_name = ''Multan Electric Power Company'', co_code = ''mepco'',
        co_url = ''https://bill.pitc.com.pk/mepcobill'', co_refPattern = DigitsBetween 10 14\<rparr>),
     (''GEPCO'', \<lparr>co_name = ''Gujranwala Electric Power Company'', co_code = ''gepco'',
        co_url = ''https://bill.pitc.com.pk/gepcobill'', co_refPattern = DigitsBetween 10 14\<rparr>),
     (''PESCO'', \<lparr>co_name = ''Peshawar Electric Supply Company'', co_code = ''pesco'',
        co_url = ''https://bill.pitc.com.pk/pescobill'', co_refPattern = DigitsBetween 10 14\<rparr>),
     (''QESCO'', \<lparr>co_name = ''Quetta Electric Supply Company'', co_code = ''qesco'',
        co_url = ''https://bill.pitc.com.pk/qescobill'', co_refPattern = DigitsBetween 10 14\<rparr>),
     (''SEPCO'', \<lparr>co_name = ''Sukkur Electric Power Company'', co_code = ''sepco'',
        co_url = ''https://bill.pitc.com.pk/sepcobill'', co_refPattern = DigitsBetween 10 14\<rparr>)]"

text \<open>
  \<open>COMPANIES[upperCode] || null\<close>: the property whose key has the code points of
  \<open>upperCode\<close>; every descriptor is an object, hence truthy. (The properties that an
  object inherits all have a lower-case letter in their names, and an upper-cased text
  has none.)
\<close>

definition getCompanyByCode :: "nat list \<Rightarrow> descriptor option" where
  "getCompanyByCode code =
     (let upperCode = toUpperCase code in
      map_of (map (\<lambda>(key, c). (codePoints key, c)) COMPANIES) upperCode)"



section \<open>The reference number validator\<close>

datatype validation = Invalid string | Valid string

text \<open>
  The argument is a string or \<open>undefined\<close>; \<open>!refNo\<close> holds for \<open>undefined\<close> and for the
  empty string.
\<close>

definition validateReferenceNumber :: "string option \<Rightarrow> validation" where
  "validateReferenceNumber refNo =
     (case refNo of
        None \<Rightarrow> Invalid ''Reference number is required''
      | Some s \<Rightarrow>
          if s = [] then Invalid ''Reference number is required''
          else
            let refNoStr = trim s; refNoPattern = DigitsBetween 10 14 in
            if \<not> test refNoPattern refNoStr
            then Invalid ''Reference number must be 10-14 digits''
            else Valid refNoStr)"


section \<open>Bill records\<close>

record consumer_details =
  name :: "string option"
  address :: "string option"
  customerId :: "string option"

record bill_details =
  tariff :: "string option"
  dueDate :: "string option"
  issueDate :: "string option"
  readingDate :: "string option"
  currentReading :: "string option"
  previousReading :: "string option"
  unitsConsumed :: "string option"

record bill_charges =
  totalAmount :: "string option"
  amountAfterDueDate :: "string option"
  electricityCharges :: "string option"
  gst :: "string option"
  displayAmount :: "string option"

text \<open>
  A property that has not been assigned is \<open>None\<close>; \<open>parseError\<close> is a property that
  only the \<open>catch\<close> block creates.
\<close>

record bill_data =
  referenceNumber :: string
  company :: string
  consumerDetails :: consumer_details
  billDetails :: bill_details
  charges :: bill_charges
  rawHtml :: "string option"
  parseError :: "string option"


section \<open>Extraction of the bill fields\<close>

text \<open>
  An exception value with its \<open>code\<close> (which may be \<open>undefined\<close>) and its \<open>message\<close>.
\<close>

datatype js_error = JsError (err_code: "string option") (err_message: string)

text \<open>
  The parsed response of the form submission, as the extraction reads it through the
  HTML library: the text of the element \<open>#ua\<close> (empty when there is none), the rows
  selected by \<open>table tr\<close> in document order, each with the texts of its \<open>td\<close> cells, the
  text of the first element whose \<open>id\<close> or \<open>class\<close> contains \<open>amount\<close> (when there is one)
  and the serialised markup. A library call inside the \<open>try\<close> block may raise; \<open>Inl\<close> is
  the exception raised.
\<close>

record document =
  ua_text :: string
  tableRows :: "js_error + (js_error + string list) list"
  amountElement :: "js_error + string option"
  html :: "js_error + string"

text \<open>The body of the callback given to \<open>tableRows.each\<close>, for a row whose cells were read.\<close>

definition apply_row :: "string list \<Rightarrow> bill_data \<Rightarrow> bill_data" where
  "apply_row cells billData =
     (if length cells \<ge> 2 then
        let label = toLowerCase (trim (cells ! 0));
            val = trim (cells ! 1) in
        if includes_str label ''consumer'' \<or> includes_str label ''name'' then
          billData\<lparr>consumerDetails := (consumerDetails billData)\<lparr>name := Some val\<rparr>\<rparr>
        else if includes_str label ''address'' then
          billData\<lparr>consumerDetails := (consumerDetails billData)\<lparr>address := Some val\<rparr>\<rparr>
        else if includes_str label ''customer'' \<or> includes_str label ''id'' then
          billData\<lparr>consumerDetails := (consumerDetails billData)\<lparr>customerId := Some val\<rparr>\<rparr>
        else if includes_str label ''tariff'' then
          billData\<lparr>billDetails := (billDetails billData)\<lparr>tariff := Some val\<rparr>\<rparr>
        else if includes_str label ''due date'' then
          billData\<lparr>billDetails := (billDetails billData)\<lparr>dueDate := Some val\<rparr>\<rparr>
        else if includes_str label ''issue date'' \<or> includes_str label ''bill date'' then
          billData\<lparr>billDetails := (billDetails billData)\<lparr>issueDate := Some val\<rparr>\<rparr>
        else if includes_str label ''reading date'' then
          billData\<lparr>billDetails := (billDetails billData)\<lparr>readingDate := Some val\<rparr>\<rparr>
        else if includes_str label ''current reading'' then
          billData\<lparr>billDetails := (billDetails billData)\<lparr>currentReading := Some val\<rparr>\<rparr>
        else if includes_str label ''previous reading'' then
          billData\<lparr>billDetails := (billDetails billData)\<lparr>previousReading := Some val\<rparr>\<rparr>
        else if includes_str label ''units'' \<or> includes_str label ''consumption'' then
          billData\<lparr>billDetails := (billDetails billData)\<lparr>unitsConsumed := Some val\<rparr>\<rparr>
        else if includes_str label ''amount payable'' \<or> includes_str label ''total amount'' then
          billData\<lparr>charges := (charges billData)\<lparr>totalAmount := Some val\<rparr>\<rparr>
        else if includes_str label ''after due date'' then
          billData\<lparr>charges := (charges billData)\<lparr>amountAfterDueDate := Some val\<rparr>\<rparr>
        else if includes_str label ''electricity charges'' then
          billData\<lparr>charges := (charges billData)\<lparr>electricityCharges := Some val\<rparr>\<rparr>
        else if includes_str label ''gst'' \<or> includes_str label ''tax'' then
          billData\<lparr>charges := (charges billData)\<lparr>gst := Some val\<rparr>\<rparr>
        else billData
      else billData)"

text \<open>
  \<open>tableRows.each\<close>: the rows in order. The record is mutated in place, so what was
  assigned before an exception stays; the result is the record and the exception that
  ended the loop, if any.
\<close>

fun each_row :: "(js_error + string list) list \<Rightarrow> bill_data \<Rightarrow> bill_data \<times> js_error option" where
  "each_row [] billData = (billData, None)"
| "each_row (Inl e # rows) billData = (billData, Some e)"
| "each_row (Inr cells # rows) billData = each_row rows (apply_row cells billData)"

text \<open>The \<open>try\<close> block of \<open>parseBillDetails\<close>.\<close>

definition parse_try :: "document \<Rightarrow> bill_data \<Rightarrow> bill_data \<times> js_error option" where
  "parse_try doc billData =
     (case tableRows doc of
        Inl e \<Rightarrow> (billData, Some e)
      | Inr rows \<Rightarrow>
          (case each_row rows billData of
             (b1, Some e) \<Rightarrow> (b1, Some e)
           | (b1, None) \<Rightarrow>
               (case amountElement doc of
                  Inl e \<Rightarrow> (b1, Some e)
                | Inr billAmountElement \<Rightarrow>
                    let b2 = (case billAmountElement of
                                None \<Rightarrow> b1
                              | Some t \<Rightarrow> b1\<lparr>charges := (charges b1)\<lparr>displayAmount := Some (trim t)\<rparr>\<rparr>)
                    in (case html doc of
                          Inl e \<Rightarrow> (b2, Some e)
                        | Inr h \<Rightarrow> (b2\<lparr>rawHtml := Some h\<rparr>, None)))))"

definition initialBillData :: "string \<Rightarrow> string \<Rightarrow> bill_data" where
  "initialBillData refNo companyCode =
     \<lparr>referenceNumber = refNo, company = companyCode,
      consumerDetails = \<lparr>name = None, address = None, customerId = None\<rparr>,
      billDetails = \<lparr>tariff = None, dueDate = None, issueDate = None, readingDate = None,
        currentReading = None, previousReading = None, unitsConsumed = None\<rparr>,
      charges = \<lparr>totalAmount = None, amountAfterDueDate = None, electricityCharges = None,
        gst = None, displayAmount = None\<rparr>,
      rawHtml = None, parseError = None\<rparr>"

definition parseBillDetails :: "document \<Rightarrow> string \<Rightarrow> string \<Rightarrow> bill_data" where
  "parseBillDetails doc refNo companyCode =
     (let billData = initialBillData refNo companyCode in
      case parse_try doc billData of
        (b, None) \<Rightarrow> b
      | (b, Some err) \<Rightarrow> b\<lparr>parseError := Some (err_message err)\<rparr>)"

section \<open>The url-encoded form body\<close>

text \<open>
  \<open>new URLSearchParams(obj)\<close> takes the properties of \<open>obj\<close> in order and converts every
  value to a string; the string of \<open>undefined\<close> is the text \<open>undefined\<close>.
\<close>

definition toUSVString :: "string option \<Rightarrow> string" where
  "toUSVString v = (case v of None \<Rightarrow> ''undefined'' | Some s \<Rightarrow> s)"

definition URLSearchParams :: "(string \<times> string option) list \<Rightarrow> (string \<times> string) list" where
  "URLSearchParams init = map (\<lambda>(k, v). (k, toUSVString v)) init"

text \<open>
  \<open>toString\<close> is the \<open>application/x-www-form-urlencoded\<close> serialiser: a space becomes
  \<open>+\<close>; letters, digits and \<open>* - . _\<close> stay; every other byte of the UTF-8 encoding becomes
  \<open>%\<close> and two upper-case hexadecimal digits.
\<close>

definition hexDigit :: "nat \<Rightarrow> char" where
  "hexDigit n = ''0123456789ABCDEF'' ! (n mod 16)"

definition percentEncodeByte :: "nat \<Rightarrow> string" where
  "percentEncodeByte b = [CHR ''%'', hexDigit (b div 16), hexDigit b]"

definition utf8Bytes :: "char \<Rightarrow> nat list" where
  "utf8Bytes c =
     (let n = (of_char c :: nat) in if n < 128 then [n] else [192 + n div 64, 128 + n mod 64])"

definition isFormSafe :: "char \<Rightarrow> bool" where
  "isFormSafe c =
     (let n = (of_char c :: nat) in
      n = 42 \<or> n = 45 \<or> n = 46 \<or> n = 95 \<or>
      (48 \<le> n \<and> n \<le> 57) \<or> (65 \<le> n \<and> n \<le> 90) \<or> (97 \<le> n \<and> n \<le> 122))"

definition formEncodeChar :: "char \<Rightarrow> string" where
  "formEncodeChar c =
     (if c = CHR '' '' then ''+''
      else if isFormSafe c then [c]
      else concat (map percentEncodeByte (utf8Bytes c)))"

definition formEncode :: "string \<Rightarrow> string" where
  "formEncode s = concat (map formEncodeChar s)"

definition toString :: "(string \<times> string) list \<Rightarrow> string" where
  "toString params = join ''&'' (map (\<lambda>(k, v). formEncode k @ ''='' @ formEncode v) params)"


section \<open>The lookup\<close>

text \<open>
  The result object: a failure carries \<open>error\<close> and, on some paths, \<open>refNo\<close> and
  \<open>company\<close>; a success carries \<open>refNo\<close>, \<open>company\<close>, \<open>companyName\<close> and \<open>data\<close>.
\<close>

datatype lookup_result =
    Failure string "string option" "string option"
  | Success string string string bill_data

fun success :: "lookup_result \<Rightarrow> bool" where
  "success (Failure e r c) = False"
| "success (Success r c n d) = True"

text \<open>
  A request as the HTTP client is given it: the URL, the headers and, for a \<open>POST\<close>, the
  body. (The time limit of 30 s and the redirect limit are options of the client.)
\<close>

datatype request =
    GET string "(string \<times> string) list"
  | POST string string "(string \<times> string) list"

text \<open>
  What the first response gives: the \<open>val()\<close> of the four hidden inputs (\<open>None\<close> when the
  element or its value is absent) and the \<open>set-cookie\<close> header.
\<close>

record get_response =
  viewState_val :: "string option"
  viewStateGenerator_val :: "string option"
  eventValidation_val :: "string option"
  requestVerificationToken_val :: "string option"
  set_cookie :: "string list option"

text \<open>The portal and the network: each call answers or raises.\<close>

record network =
  net_get :: "request \<Rightarrow> js_error + get_response"
  net_post :: "request \<Rightarrow> js_error + document"

definition userAgent :: string where
  "userAgent = ''Mozilla/5.0 (Windows NT 10.0; Win64; x64) AppleWebKit/537.36 (KHTML, like Gecko) Chrome/91.0.4472.124 Safari/537.36''"

text \<open>\<open>!v\<close> for a string or \<open>undefined\<close>.\<close>

definition falsy :: "string option \<Rightarrow> bool" where
  "falsy v = (case v of None \<Rightarrow> True | Some s \<Rightarrow> s = [])"

definition formData :: "get_response \<Rightarrow> string \<Rightarrow> (string \<times> string) list" where
  "formData getResponse refNo =
     URLSearchParams
       [(''__VIEWSTATE'', viewState_val getResponse),
        (''__VIEWSTATEGENERATOR'', viewStateGenerator_val getResponse),
        (''__EVENTVALIDATION'', eventValidation_val getResponse),
        (''__RequestVerificationToken'', requestVerificationToken_val getResponse),
        (''rbSearchByList'', Some ''refno''),
        (''searchTextBox'', Some refNo),
        (''ruCodeTextBox'', Some []),
        (''btnSearch'', Some ''Search'')]"

definition postRequest :: "string \<Rightarrow> get_response \<Rightarrow> string \<Rightarrow> request" where
  "postRequest baseUrl getResponse refNo =
     POST baseUrl (toString (formData getResponse refNo))
       [(''Content-Type'', ''application/x-www-form-urlencoded''),
        (''User-Agent'', userAgent),
        (''Referer'', baseUrl),
        (''Cookie'', (case set_cookie getResponse of
                        None \<Rightarrow> []
                      | Some cookies \<Rightarrow> join ''; '' cookies))]"

definition getRequest :: "string \<Rightarrow> request" where
  "getRequest baseUrl = GET baseUrl [(''User-Agent'', userAgent)]"

text \<open>
  The \<open>try\<close> block of \<open>getPITCBill\<close>. The result is the list of the requests made, in
  order, and either the exception that left the block or the object returned.
\<close>

definition getPITCBill_try ::
  "network \<Rightarrow> string \<Rightarrow> nat list \<Rightarrow> request list \<times> (js_error + lookup_result)" where
  "getPITCBill_try net refNo companyCode =
     (case getCompanyByCode companyCode of
        None \<Rightarrow>
          ([], Inr (Failure (''Invalid company code. Supported: '' @
                  join '', '' (map (\<lambda>k. toLowerCase k) (map fst COMPANIES))) None None))
      | Some co \<Rightarrow>
          let baseUrl = co_url co in
          (case net_get net (getRequest baseUrl) of
             Inl e \<Rightarrow> ([getRequest baseUrl], Inl e)
           | Inr getResponse \<Rightarrow>
               if falsy (viewState_val getResponse) \<or> falsy (viewStateGenerator_val getResponse)
                  \<or> falsy (eventValidation_val getResponse)
               then ([getRequest baseUrl],
                     Inr (Failure ''Failed to extract required tokens from PITC portal'' None None))
               else
                 let postReq = postRequest baseUrl getResponse refNo in
                 (case net_post net postReq of
                    Inl e \<Rightarrow> ([getRequest baseUrl, postReq], Inl e)
                  | Inr result \<Rightarrow>
                      let errorDiv = trim (ua_text result) in
                      if errorDiv \<noteq> [] then
                        ([getRequest baseUrl, postReq],
                         Inr (Failure errorDiv (Some refNo) (Some (co_code co))))
                      else
                        let billData = parseBillDetails result refNo (co_code co) in
                        ([getRequest baseUrl, postReq],
                         Inr (Success refNo (co_code co) (co_name co) billData)))))"

text \<open>The \<open>catch\<close> block.\<close>

definition catch_block :: "js_error \<Rightarrow> lookup_result" where
  "catch_block e =
     (if err_code e = Some ''ECONNABORTED'' \<or> err_code e = Some ''UND_ERR_CONNECT_TIMEOUT'' then
        Failure ''Connection timeout - PITC server may be geo-restricted or down'' None None
      else if err_code e = Some ''ENOTFOUND'' \<or> err_code e = Some ''ECONNREFUSED'' then
        Failure ''Unable to connect to PITC server'' None None
      else Failure (err_message e) None None)"

definition getPITCBill :: "network \<Rightarrow> string \<Rightarrow> nat list \<Rightarrow> request list \<times> lookup_result" where
  "getPITCBill net refNo companyCode =
     (case getPITCBill_try net refNo companyCode of
        (requests, Inl e) \<Rightarrow> (requests, catch_block e)
      | (requests, Inr r) \<Rightarrow> (requests, r))"


section \<open>The REST facade\<close>

text \<open>
  The query (or the body) of a request to \<open>/api/check-bill\<close>, and the response: the
  status and the object sent as JSON. \<open>getPITCBill\<close> returns on every path, so the
  handler's own \<open>catch\<close> (status 500) is never entered.
\<close>

record check_bill_input =
  q_refNo :: "string option"
  q_company :: "nat list option"

record http_response =
  status :: nat
  body :: lookup_result

definition get_check_bill :: "network \<Rightarrow> check_bill_input \<Rightarrow> request list \<times> http_response" where
  "get_check_bill net query =
     (let refNo = q_refNo query;
          co = (case q_company query of None \<Rightarrow> codePoints ''hesco'' | Some c \<Rightarrow> c) in
      case validateReferenceNumber refNo of
        Invalid err \<Rightarrow> ([], \<lparr>status = 400, body = Failure err None None\<rparr>)
      | Valid validRefNo \<Rightarrow>
          (case getPITCBill net validRefNo co of
             (requests, result) \<Rightarrow>
               if success result then (requests, \<lparr>status = 200, body = result\<rparr>)
               else (requests, \<lparr>status = 404, body = result\<rparr>)))"

definition post_check_bill :: "network \<Rightarrow> check_bill_input \<Rightarrow> request list \<times> http_response" where
  "post_check_bill net reqBody =
     (let refNo = q_refNo reqBody;
          co = (case q_company reqBody of None \<Rightarrow> codePoints ''hesco'' | Some c \<Rightarrow> c) in
      case validateReferenceNumber refNo of
        Invalid err \<Rightarrow> ([], \<lparr>status = 400, body = Failure err None None\<rparr>)
      | Valid validRefNo \<Rightarrow>
          (case getPITCBill net validRefNo co of
             (requests, result) \<Rightarrow>
               if success result then (requests, \<lparr>status = 200, body = result\<rparr>)
               else (requests, \<lparr>status = 404, body = result\<rparr>)))"


section \<open>The label rules as a table\<close>

text \<open>
  The fields a table row can be assigned to, and the rules in the order of the
  documented table: a row goes to the field of the first rule one of whose texts occurs
  in the label.
\<close>

datatype field =
    ConsumerName | ConsumerAddress | CustomerId
  | Tariff | DueDate | IssueDate | ReadingDate | CurrentReading | PreviousReading
  | UnitsConsumed
  | TotalAmount | AmountAfterDueDate | ElectricityCharges | Gst

definition label_rules :: "(string list \<times> field) list" where
  "label_rules =
    [([''consumer'', ''name''], ConsumerName),
     ([''address''], ConsumerAddress),
     ([''customer'', ''id''], CustomerId),
     ([''tariff''], Tariff),
     ([''due date''], DueDate),
     ([''issue date'', ''bill date''], IssueDate),
     ([''reading date''], ReadingDate),
     ([''current reading''], CurrentReading),
     ([''previous reading''], PreviousReading),
     ([''units'', ''consumption''], UnitsConsumed),
     ([''amount payable'', ''total amount''], TotalAmount),
     ([''after due date''], AmountAfterDueDate),
     ([''electricity charges''], ElectricityCharges),
     ([''gst'', ''tax''], Gst)]"

fun first_match :: "(string list \<times> field) list \<Rightarrow> string \<Rightarrow> field option" where
  "first_match [] label = None"
| "first_match ((texts, f) # rules) label =
     (if list_ex (includes_str label) texts then Some f else first_match rules label)"

text \<open>The field a row is assigned to: none for a row with fewer than two cells.\<close>

definition row_field :: "string list \<Rightarrow> field option" where
  "row_field cells =
     (if length cells \<ge> 2 then first_match label_rules (toLowerCase (trim (cells ! 0)))
      else None)"

fun get_field :: "field \<Rightarrow> bill_data \<Rightarrow> string option" where
  "get_field ConsumerName b = name (consumerDetails b)"
| "get_field ConsumerAddress b = address (consumerDetails b)"
| "get_field CustomerId b = customerId (consumerDetails b)"
| "get_field Tariff b = tariff (billDetails b)"
| "get_field DueDate b = dueDate (billDetails b)"
| "get_field IssueDate b = issueDate (billDetails b)"
| "get_field ReadingDate b = readingDate (billDetails b)"
| "get_field CurrentReading b = currentReading (billDetails b)"
| "get_field PreviousReading b = previousReading (billDetails b)"
| "get_field UnitsConsumed b = unitsConsumed (billDetails b)"
| "get_field TotalAmount b = totalAmount (charges b)"
| "get_field AmountAfterDueDate b = amountAfterDueDate (charges b)"
| "get_field ElectricityCharges b = electricityCharges (charges b)"
| "get_field Gst b = gst (charges b)"

fun set_field :: "field \<Rightarrow> string \<Rightarrow> bill_data \<Rightarrow> bill_data" where
  "set_field ConsumerName v b = b\<lparr>consumerDetails := (consumerDetails b)\<lparr>name := Some v\<rparr>\<rparr>"
| "set_field ConsumerAddress v b = b\<lparr>consumerDetails := (consumerDetails b)\<lparr>address := Some v\<rparr>\<rparr>"
| "set_field CustomerId v b = b\<lparr>consumerDetails := (consumerDetails b)\<lparr>customerId := Some v\<rparr>\<rparr>"
| "set_field Tariff v b = b\<lparr>billDetails := (billDetails b)\<lparr>tariff := Some v\<rparr>\<rparr>"
| "set_field DueDate v b = b\<lparr>billDetails := (billDetails b)\<lparr>dueDate := Some v\<rparr>\<rparr>"
| "set_field IssueDate v b = b\<lparr>billDetails := (billDetails b)\<lparr>issueDate := Some v\<rparr>\<rparr>"
| "set_field ReadingDate v b = b\<lparr>billDetails := (billDetails b)\<lparr>readingDate := Some v\<rparr>\<rparr>"
| "set_field CurrentReading v b = b\<lparr>billDetails := (billDetails b)\<lparr>currentReading := Some v\<rparr>\<rparr>"
| "set_field PreviousReading v b = b\<lparr>billDetails := (billDetails b)\<lparr>previousReading := Some v\<rparr>\<rparr>"
| "set_field UnitsConsumed v b = b\<lparr>billDetails := (billDetails b)\<lparr>unitsConsumed := Some v\<rparr>\<rparr>"
| "set_field TotalAmount v b = b\<lparr>charges := (charges b)\<lparr>totalAmount := Some v\<rparr>\<rparr>"
| "set_field AmountAfterDueDate v b = b\<lparr>charges := (charges b)\<lparr>amountAfterDueDate := Some v\<rparr>\<rparr>"
| "set_field ElectricityCharges v b = b\<lparr>charges := (charges b)\<lparr>electricityCharges := Some v\<rparr>\<rparr>"
| "set_field Gst v b = b\<lparr>charges := (charges b)\<lparr>gst := Some v\<rparr>\<rparr>"


section \<open>Sample responses\<close>

text \<open>
  Concrete responses of the portal, on which the properties below are instantiated: a
  page with all four hidden inputs, a response whose \<open>#ua\<close> region reports a business
  error (and whose tables cannot even be read), a response with a bill, and a response
  whose second row raises while it is read.
\<close>

definition sample_page :: get_response where
  "sample_page =
     \<lparr>viewState_val = Some ''dDwtMTA4/w=='', viewStateGenerator_val = Some ''CA0B0334'',
      eventValidation_val = Some ''/wEdAAU='', requestVerificationToken_val = Some ''tok_1'',
      set_cookie = Some [''ASP.NET_SessionId=abc; path=/'']\<rparr>"

definition sample_error_doc :: document where
  "sample_error_doc =
     \<lparr>ua_text = '' The given input does not belongs to HESCO '',
      tableRows = Inl (JsError None ''tables not readable''),
      amountElement = Inr None, html = Inr ''<html></html>''\<rparr>"

definition sample_bill_doc :: document where
  "sample_bill_doc =
     \<lparr>ua_text = '' '',
      tableRows = Inr [Inr [''Consumer Name'', ''Jane Doe''],
                       Inr [''Total Amount Payable'', ''5000'']],
      amountElement = Inr (Some '' 5000 ''), html = Inr ''<html></html>''\<rparr>"

definition sample_faulty_doc :: document where
  "sample_faulty_doc =
     \<lparr>ua_text = [],
      tableRows = Inr [Inr [''Name'', ''A''], Inl (JsError None ''boom''),
                       Inr [''Address'', ''X'']],
      amountElement = Inr (Some ''5000''), html = Inr ''<html></html>''\<rparr>"

definition portal :: "get_response \<Rightarrow> document \<Rightarrow> network" where
  "portal page doc = \<lparr>net_get = (\<lambda>r. Inr page), net_post = (\<lambda>r. Inr doc)\<rparr>"

definition hesco :: descriptor where
  "hesco = \<lparr>co_name = ''Hyderabad Electric Supply Company'', co_code = ''hesco'',
        co_url = ''https://bill.pitc.com.pk/hescobill'', co_refPattern = DigitsBetween 10 14\<rparr>"





section \<open>The kinds of network fault\<close>




section \<open>Properties of the string operations and of the registry\<close>

lemmas js_eval = toLowerCase_def toLowerChar_def char_of_def bit_Suc_0_iff

lemmas cp_eval = codePoints_def toUpperCase_def upperCodePoint_def toLowerCase_code_def
  lowerCodePoint_def
















lemma isDigit_iff: "isDigit c \<longleftrightarrow> c \<in> set ''0123456789''"
proof
  assume "isDigit c"
  then have "48 \<le> (of_char c :: nat)" and "(of_char c :: nat) \<le> 57"
    by (simp_all add: isDigit_def Let_def)
  then have "(of_char c :: nat) = 48 \<or> (of_char c :: nat) = 49 \<or> (of_char c :: nat) = 50
      \<or> (of_char c :: nat) = 51 \<or> (of_char c :: nat) = 52 \<or> (of_char c :: nat) = 53
      \<or> (of_char c :: nat) = 54 \<or> (of_char c :: nat) = 55 \<or> (of_char c :: nat) = 56
      \<or> (of_char c :: nat) = 57"
    by arith
  then have "(of_char c :: nat) \<in> of_char ` set ''0123456789''"
    by auto
  then show "c \<in> set ''0123456789''"
    by (auto simp del: of_char_Char dest!: of_char_eqI)
next
  assume "c \<in> set ''0123456789''"
  then show "isDigit c" by (auto simp add: isDigit_def)
qed

lemma trim_nonempty: "trim s \<noteq> [] \<Longrightarrow> s \<noteq> []"
  by (auto simp add: trim_def)


section \<open>The validator (C3)\<close>

text \<open>
  C3. \<open>validateReferenceNumber\<close> applies its rules in order. A missing or empty input
  gives the error "Reference number is required". Any other input whose trimmed text
  is not a run of 10 to 14 digits gives the error "Reference number must be 10-14
  digits". Every input whose trimmed text is a run of 10 to 14 digits is accepted, and
  the value returned is exactly that trimmed text.
\<close>

theorem validateReferenceNumber_rules:
  "(refNo = None \<or> refNo = Some [] \<longrightarrow>
      validateReferenceNumber refNo = Invalid ''Reference number is required'') \<and>
   (\<forall>s. refNo = Some s \<and> s \<noteq> [] \<and>
        \<not> (10 \<le> length (trim s) \<and> length (trim s) \<le> 14 \<and> set (trim s) \<subseteq> set ''0123456789'') \<longrightarrow>
      validateReferenceNumber refNo = Invalid ''Reference number must be 10-14 digits'') \<and>
   (\<forall>s. refNo = Some s \<and>
        10 \<le> length (trim s) \<and> length (trim s) \<le> 14 \<and> set (trim s) \<subseteq> set ''0123456789'' \<longrightarrow>
      validateReferenceNumber refNo = Valid (trim s))"
proof -
  have digits: "list_all isDigit t \<longleftrightarrow> set t \<subseteq> set ''0123456789''" for t
    unfolding list_all_iff isDigit_iff by blast
  have ne: "10 \<le> length (trim s) \<Longrightarrow> s \<noteq> []" for s
    by (cases "s = []") (simp_all add: trim_def)
  show ?thesis
    using ne by (auto simp add: validateReferenceNumber_def Let_def digits simp del: set_simps)
qed

theorem validateReferenceNumber_rules_witness:
  "validateReferenceNumber None = Invalid ''Reference number is required'' \<and>
   validateReferenceNumber (Some []) = Invalid ''Reference number is required'' \<and>
   validateReferenceNumber (Some ''  123 '') = Invalid ''Reference number must be 10-14 digits'' \<and>
   validateReferenceNumber (Some ''0611353046290x'') = Invalid ''Reference number must be 10-14 digits'' \<and>
   validateReferenceNumber (Some '' 06113530462901  '') = Valid ''06113530462901''"
proof -
  have t1: "trim ''  123 '' = ''123''"
    by (simp add: trim_def isWhiteSpace_def)
  have t2: "trim ''0611353046290x'' = ''0611353046290x''"
    by (simp add: trim_def isWhiteSpace_def)
  have t3: "trim '' 06113530462901  '' = ''06113530462901''"
    by (simp add: trim_def isWhiteSpace_def)
  show ?thesis
    using validateReferenceNumber_rules [of None]
      validateReferenceNumber_rules [of "Some []"]
      validateReferenceNumber_rules [of "Some ''  123 ''"]
      validateReferenceNumber_rules [of "Some ''0611353046290x''"]
      validateReferenceNumber_rules [of "Some '' 06113530462901  ''"]
    by (simp add: t1 t2 t3)
qed

section \<open>Company resolution (C9)\<close>





section \<open>One table row (C4)\<close>

lemma startsWith_iff: "startsWith s p \<longleftrightarrow> (\<exists>b. s = p @ b)"
  unfolding startsWith_def
  by (metis append_eq_conv_conj append_take_drop_id)

lemma includes_str_iff: "includes_str s p \<longleftrightarrow> (\<exists>a b. s = a @ p @ b)"
proof (induction s)
  case Nil
  then show ?case by auto
next
  case (Cons c cs)
  show ?case
  proof
    assume "includes_str (c # cs) p"
    then consider "startsWith (c # cs) p" | "includes_str cs p" by auto
    then show "\<exists>a b. c # cs = a @ p @ b"
    proof cases
      case 1
      then obtain b where "c # cs = p @ b" unfolding startsWith_iff by blast
      then have "c # cs = [] @ p @ b" by simp
      then show ?thesis by blast
    next
      case 2
      then obtain a b where "cs = a @ p @ b" using Cons.IH by blast
      then have "c # cs = (c # a) @ p @ b" by simp
      then show ?thesis by blast
    qed
  next
    assume "\<exists>a b. c # cs = a @ p @ b"
    then obtain a b where ab: "c # cs = a @ p @ b" by blast
    show "includes_str (c # cs) p"
    proof (cases a)
      case Nil
      then have "startsWith (c # cs) p" using ab unfolding startsWith_iff by auto
      then show ?thesis by simp
    next
      case (Cons x a')
      then have "cs = a' @ p @ b" using ab by simp
      then have "includes_str cs p" using Cons.IH by blast
      then show ?thesis by simp
    qed
  qed
qed

lemma apply_row_short: "length cells < 2 \<Longrightarrow> apply_row cells b = b"
  by (simp add: apply_row_def)

lemma apply_row_table:
  "2 \<le> length cells \<Longrightarrow>
   apply_row cells b =
     (case first_match label_rules (toLowerCase (trim (cells ! 0))) of
        None \<Rightarrow> b
      | Some f \<Rightarrow> set_field f (trim (cells ! 1)) b)"
  by (simp add: apply_row_def label_rules_def Let_def)

lemma get_set_field:
  "get_field g (set_field f v b) = (if g = f then Some v else get_field g b)"
  by (cases f; cases g; simp)


lemma row_field_short: "length cells < 2 \<Longrightarrow> row_field cells = None"
  by (simp add: row_field_def)

lemma apply_row_row_field:
  "apply_row cells b =
     (case row_field cells of None \<Rightarrow> b | Some f \<Rightarrow> set_field f (trim (cells ! 1)) b)"
proof (cases "2 \<le> length cells")
  case True
  then show ?thesis by (simp add: apply_row_table row_field_def)
next
  case False
  then show ?thesis by (simp add: apply_row_def row_field_def)
qed

lemma get_field_apply_row:
  "get_field g (apply_row cells b) =
     (if row_field cells = Some g then Some (trim (cells ! 1)) else get_field g b)"
  by (cases "row_field cells") (simp_all add: apply_row_row_field get_set_field)

lemma label_consumer_name: "toLowerCase (trim ''Consumer Name'') = ''consumer name''"
  by (simp add: trim_def isWhiteSpace_def js_eval)

lemma label_total_amount_payable:
  "toLowerCase (trim ''Total Amount Payable'') = ''total amount payable''"
  by (simp add: trim_def isWhiteSpace_def js_eval)

lemma rule_consumer_name: "first_match label_rules ''consumer name'' = Some ConsumerName"
  by (simp add: label_rules_def startsWith_def)

lemma rule_total_amount_payable:
  "first_match label_rules ''total amount payable'' = Some TotalAmount"
  by (simp add: label_rules_def startsWith_def)

text \<open>
  C4. A row with fewer than two cells changes nothing. For a row with at least two
  cells the label is the trimmed, lower-cased text of cell 0 and the value is the
  trimmed text of cell 1; the row assigns the value to the field of the first rule of
  the table that matches the label and to no other field, and a row that matches no
  rule leaves the record as it was. The row \<open>["Consumer Name", "Jane Doe"]\<close> sets
  \<open>consumerDetails.name\<close> to \<open>Jane Doe\<close>, and the row \<open>["Total Amount Payable", "5000"]\<close>
  sets \<open>charges.totalAmount\<close> to \<open>5000\<close>.
\<close>

theorem apply_row_first_rule:
  "(length cells < 2 \<longrightarrow> apply_row cells b = b) \<and>
   (2 \<le> length cells \<longrightarrow>
      (first_match label_rules (toLowerCase (trim (cells ! 0))) = None \<longrightarrow>
         apply_row cells b = b) \<and>
      (\<forall>f. first_match label_rules (toLowerCase (trim (cells ! 0))) = Some f \<longrightarrow>
         apply_row cells b = set_field f (trim (cells ! 1)) b \<and>
         get_field f (apply_row cells b) = Some (trim (cells ! 1)) \<and>
         (\<forall>g. g \<noteq> f \<longrightarrow> get_field g (apply_row cells b) = get_field g b))) \<and>
   name (consumerDetails (apply_row [''Consumer Name'', ''Jane Doe''] b)) = Some ''Jane Doe'' \<and>
   totalAmount (charges (apply_row [''Total Amount Payable'', ''5000''] b)) = Some ''5000''"
proof (intro conjI impI allI)
  assume "length cells < 2"
  then show "apply_row cells b = b" by (rule apply_row_short)
next
  assume "2 \<le> length cells"
    and "first_match label_rules (toLowerCase (trim (cells ! 0))) = None"
  then show "apply_row cells b = b" by (simp add: apply_row_table)
next
  fix f
  assume len: "2 \<le> length cells"
    and f: "first_match label_rules (toLowerCase (trim (cells ! 0))) = Some f"
  then show eq: "apply_row cells b = set_field f (trim (cells ! 1)) b"
    by (simp add: apply_row_table)
  show "get_field f (apply_row cells b) = Some (trim (cells ! 1))"
    unfolding eq by (simp add: get_set_field)
  fix g assume "g \<noteq> f"
  then show "get_field g (apply_row cells b) = get_field g b"
    unfolding eq by (simp add: get_set_field)
next
  have "trim ''Jane Doe'' = ''Jane Doe''" by (simp add: trim_def isWhiteSpace_def)
  then show "name (consumerDetails (apply_row [''Consumer Name'', ''Jane Doe''] b)) = Some ''Jane Doe''"
    by (simp add: apply_row_table label_consumer_name rule_consumer_name)
next
  have "trim ''5000'' = ''5000''" by (simp add: trim_def isWhiteSpace_def)
  then show "totalAmount (charges (apply_row [''Total Amount Payable'', ''5000''] b)) = Some ''5000''"
    by (simp add: apply_row_table label_total_amount_payable rule_total_amount_payable)
qed

theorem apply_row_first_rule_witness:
  "apply_row [''only one''] (initialBillData [] []) = initialBillData [] [] \<and>
   apply_row [''Remarks'', ''x''] (initialBillData [] []) = initialBillData [] [] \<and>
   apply_row [''Paid Units'', '' 12 ''] (initialBillData [] []) =
     set_field CustomerId ''12'' (initialBillData [] []) \<and>
   get_field UnitsConsumed (apply_row [''Paid Units'', '' 12 ''] (initialBillData [] [])) = None"
proof -
  have l1: "toLowerCase (trim ([''Remarks'', ''x''] ! 0)) = ''remarks''"
    and l2: "toLowerCase (trim ([''Paid Units'', '' 12 ''] ! 0)) = ''paid units''"
    and v2: "trim ([''Paid Units'', '' 12 ''] ! 1) = ''12''"
    by (simp_all add: trim_def isWhiteSpace_def js_eval)
  have m1: "first_match label_rules ''remarks'' = None"
    and m2: "first_match label_rules ''paid units'' = Some CustomerId"
    by (simp_all add: label_rules_def startsWith_def)
  have u: "get_field UnitsConsumed (initialBillData [] []) = None"
    by (simp add: initialBillData_def)
  note A = apply_row_first_rule [of "[''only one'']" "initialBillData [] []"]
  note B = apply_row_first_rule [of "[''Remarks'', ''x'']" "initialBillData [] []", unfolded l1]
  note C = apply_row_first_rule [of "[''Paid Units'', '' 12 '']" "initialBillData [] []", unfolded l2 v2]
  have a: "apply_row [''only one''] (initialBillData [] []) = initialBillData [] []"
    using A by simp
  have b: "apply_row [''Remarks'', ''x''] (initialBillData [] []) = initialBillData [] []"
    using B m1 by simp
  have c: "apply_row [''Paid Units'', '' 12 ''] (initialBillData [] []) =
     set_field CustomerId ''12'' (initialBillData [] [])"
    using C m2 by simp
  have d: "get_field UnitsConsumed (apply_row [''Paid Units'', '' 12 ''] (initialBillData [] [])) = None"
    using C m2 u by simp
  show ?thesis using a b c d by (intro conjI)
qed

section \<open>Several rows for one field (C10)\<close>

lemma each_row_ok:
  "each_row (map Inr rows) b = (foldl (\<lambda>acc cells. apply_row cells acc) b rows, None)"
  by (induction rows arbitrary: b) simp_all

lemma get_field_foldl:
  "get_field f (foldl (\<lambda>acc cells. apply_row cells acc) b rows) =
     (let ms = filter (\<lambda>cells. row_field cells = Some f) rows in
      if ms = [] then get_field f b else Some (trim (last ms ! 1)))"
proof (induction rows rule: rev_induct)
  case Nil
  then show ?case by simp
next
  case (snoc r rows)
  then show ?case by (simp add: get_field_apply_row Let_def)
qed

lemma get_field_displayAmount:
  "get_field f (b\<lparr>charges := (charges b)\<lparr>displayAmount := x\<rparr>\<rparr>) = get_field f b"
  by (cases f) simp_all

lemma get_field_rawHtml: "get_field f (b\<lparr>rawHtml := x\<rparr>) = get_field f b"
  by (cases f) simp_all

lemma get_field_parseError: "get_field f (b\<lparr>parseError := x\<rparr>) = get_field f b"
  by (cases f) simp_all

lemma get_field_initial: "get_field f (initialBillData refNo cc) = None"
  by (cases f) (simp_all add: initialBillData_def)

lemma get_field_parse_try:
  "tableRows doc = Inr (map Inr rows) \<Longrightarrow>
   get_field f (fst (parse_try doc b)) =
     get_field f (foldl (\<lambda>acc cells. apply_row cells acc) b rows)"
  by (simp add: parse_try_def each_row_ok Let_def get_field_displayAmount get_field_rawHtml
      split: sum.splits option.splits)

lemma get_field_parseBillDetails:
  "get_field f (parseBillDetails doc refNo cc) =
     get_field f (fst (parse_try doc (initialBillData refNo cc)))"
  by (simp add: parseBillDetails_def Let_def get_field_parseError split: prod.splits option.splits)

text \<open>
  C10. When the rows of a document are read without an exception, a field of the
  returned record holds the trimmed value of the last row, in document order, that
  is assigned to that field: a later matching row overwrites what an earlier one
  assigned. A field to which no row is assigned stays unset.
\<close>

theorem last_matching_row_wins:
  assumes "tableRows doc = Inr (map Inr rows)"
  shows "(filter (\<lambda>cells. row_field cells = Some f) rows = [] \<longrightarrow>
            get_field f (parseBillDetails doc refNo cc) = None) \<and>
         (filter (\<lambda>cells. row_field cells = Some f) rows \<noteq> [] \<longrightarrow>
            get_field f (parseBillDetails doc refNo cc) =
              Some (trim (last (filter (\<lambda>cells. row_field cells = Some f) rows) ! 1)))"
  using assms
  by (simp add: get_field_parseBillDetails get_field_parse_try get_field_foldl get_field_initial
      Let_def)


theorem last_matching_row_wins_witness:
  "get_field ConsumerName
     (parseBillDetails
        \<lparr>ua_text = [],
         tableRows = Inr (map Inr [[''Name'', ''A''], [''Units'', ''7''], [''Consumer'', '' B '']]),
         amountElement = Inr None, html = Inr []\<rparr> ''0611353046'' ''hesco'') = Some ''B'' \<and>
   get_field Gst
     (parseBillDetails
        \<lparr>ua_text = [],
         tableRows = Inr (map Inr [[''Name'', ''A''], [''Units'', ''7''], [''Consumer'', '' B '']]),
         amountElement = Inr None, html = Inr []\<rparr> ''0611353046'' ''hesco'') = None"
proof -
  let ?rows = "[[''Name'', ''A''], [''Units'', ''7''], [''Consumer'', '' B '']]"
  let ?doc = "\<lparr>ua_text = [], tableRows = Inr (map Inr ?rows),
         amountElement = Inr None, html = Inr []\<rparr>"
  have t: "tableRows ?doc = Inr (map Inr ?rows)" by simp
  have r1: "row_field [''Name'', ''A''] = Some ConsumerName"
    and r2: "row_field [''Units'', ''7''] = Some UnitsConsumed"
    and r3: "row_field [''Consumer'', '' B ''] = Some ConsumerName"
    by (simp_all add: row_field_def trim_def isWhiteSpace_def js_eval label_rules_def
        startsWith_def)
  have f1: "filter (\<lambda>cells. row_field cells = Some ConsumerName) ?rows =
      [[''Name'', ''A''], [''Consumer'', '' B '']]"
    by (simp add: r1 r2 r3)
  have f2: "filter (\<lambda>cells. row_field cells = Some Gst) ?rows = []"
    by (simp add: r1 r2 r3)
  have v: "trim '' B '' = ''B''" by (simp add: trim_def isWhiteSpace_def)
  have a: "get_field ConsumerName (parseBillDetails ?doc ''0611353046'' ''hesco'') = Some ''B''"
    using last_matching_row_wins [OF t, of ConsumerName "''0611353046''" "''hesco''"]
    unfolding f1 by (simp add: v)
  have b: "get_field Gst (parseBillDetails ?doc ''0611353046'' ''hesco'') = None"
    using last_matching_row_wins [OF t, of Gst "''0611353046''" "''hesco''"]
    unfolding f2 by simp
  show ?thesis using a b by (intro conjI)
qed

section \<open>The paths of a lookup\<close>

lemma falsy_iff: "falsy v \<longleftrightarrow> v = None \<or> v = Some []"
  by (cases v) (simp_all add: falsy_def)


lemma getPITCBill_tokens_missing:
  "getCompanyByCode cc = Some co \<Longrightarrow> net_get net (getRequest (co_url co)) = Inr page \<Longrightarrow>
   falsy (viewState_val page) \<or> falsy (viewStateGenerator_val page)
     \<or> falsy (eventValidation_val page) \<Longrightarrow>
   getPITCBill net refNo cc =
     ([getRequest (co_url co)],
      Failure ''Failed to extract required tokens from PITC portal'' None None)"
  by (simp add: getPITCBill_def getPITCBill_try_def Let_def)

lemma getPITCBill_submitted:
  "getCompanyByCode cc = Some co \<Longrightarrow> net_get net (getRequest (co_url co)) = Inr page \<Longrightarrow>
   \<not> (falsy (viewState_val page) \<or> falsy (viewStateGenerator_val page)
     \<or> falsy (eventValidation_val page)) \<Longrightarrow>
   getPITCBill net refNo cc =
     ([getRequest (co_url co), postRequest (co_url co) page refNo],
      case net_post net (postRequest (co_url co) page refNo) of
        Inl e \<Rightarrow> catch_block e
      | Inr doc \<Rightarrow>
          if trim (ua_text doc) \<noteq> [] then
            Failure (trim (ua_text doc)) (Some refNo) (Some (co_code co))
          else Success refNo (co_code co) (co_name co)
                 (parseBillDetails doc refNo (co_code co)))"
  by (simp add: getPITCBill_def getPITCBill_try_def Let_def split: sum.splits)

lemma getCompanyByCode_hesco: "getCompanyByCode (codePoints ''hesco'') = Some hesco"
  by (simp add: getCompanyByCode_def COMPANIES_def hesco_def cp_eval)

lemma portal_get: "net_get (portal page doc) r = Inr page"
  by (simp add: portal_def)

lemma portal_post: "net_post (portal page doc) r = Inr doc"
  by (simp add: portal_def)


section \<open>The error region of the response (C5)\<close>

text \<open>
  C5. When the form has been submitted and the trimmed text of the error region of the
  response is not empty, the lookup returns a failure whose error is exactly that
  trimmed text, with the reference number and the company code; the result holds no
  bill data and nothing of the tables enters it. Only when the trimmed text is empty
  is the result a success, carrying what the extraction returns.
\<close>

theorem error_region_decides:
  assumes "getCompanyByCode cc = Some co"
    and "net_get net (getRequest (co_url co)) = Inr page"
    and "viewState_val page = Some vs" and "vs \<noteq> []"
    and "viewStateGenerator_val page = Some vsg" and "vsg \<noteq> []"
    and "eventValidation_val page = Some ev" and "ev \<noteq> []"
    and "net_post net (postRequest (co_url co) page refNo) = Inr doc"
  shows "(trim (ua_text doc) \<noteq> [] \<longrightarrow>
            snd (getPITCBill net refNo cc) =
              Failure (trim (ua_text doc)) (Some refNo) (Some (co_code co))) \<and>
         (trim (ua_text doc) = [] \<longrightarrow>
            snd (getPITCBill net refNo cc) =
              Success refNo (co_code co) (co_name co)
                (parseBillDetails doc refNo (co_code co)))"
proof -
  have "\<not> (falsy (viewState_val page) \<or> falsy (viewStateGenerator_val page)
     \<or> falsy (eventValidation_val page))"
    using assms by (simp add: falsy_iff)
  from getPITCBill_submitted [OF assms(1) assms(2) this, of refNo] assms(9)
  show ?thesis by simp
qed

theorem error_region_decides_witness:
  "snd (getPITCBill (portal sample_page sample_error_doc) ''06113530462901'' (codePoints ''hesco'')) =
     Failure ''The given input does not belongs to HESCO'' (Some ''06113530462901'')
       (Some ''hesco'') \<and>
   snd (getPITCBill (portal sample_page sample_bill_doc) ''06113530462901'' (codePoints ''hesco'')) =
     Success ''06113530462901'' ''hesco'' ''Hyderabad Electric Supply Company''
       (parseBillDetails sample_bill_doc ''06113530462901'' ''hesco'')"
proof -
  have vs: "viewState_val sample_page = Some ''dDwtMTA4/w=='' " "''dDwtMTA4/w=='' \<noteq> []"
    and vsg: "viewStateGenerator_val sample_page = Some ''CA0B0334''" "''CA0B0334'' \<noteq> []"
    and ev: "eventValidation_val sample_page = Some ''/wEdAAU=''" "''/wEdAAU='' \<noteq> []"
    by (simp_all add: sample_page_def)
  have e: "trim (ua_text sample_error_doc) = ''The given input does not belongs to HESCO''"
    by (simp add: sample_error_doc_def trim_def isWhiteSpace_def)
  have b: "trim (ua_text sample_bill_doc) = []"
    by (simp add: sample_bill_doc_def trim_def isWhiteSpace_def)
  have c: "co_code hesco = ''hesco''" "co_name hesco = ''Hyderabad Electric Supply Company''"
    by (simp_all add: hesco_def)
  show ?thesis
    using error_region_decides [OF getCompanyByCode_hesco portal_get vs vsg ev portal_post,
        of sample_error_doc "''06113530462901''"]
      error_region_decides [OF getCompanyByCode_hesco portal_get vs vsg ev portal_post,
        of sample_bill_doc "''06113530462901''"]
    unfolding e b c by simp
qed


section \<open>Missing tokens (C6)\<close>

text \<open>
  C6. When the view state, the view-state generator or the event validation token of
  the fetched page is absent or empty, the lookup makes no other request than the
  first one and returns the failure "Failed to extract required tokens from PITC
  portal". When the three are present and not empty and the verification token is
  present, the form holds the four values exactly as the page gives them, and that
  form is what is submitted.
\<close>

theorem missing_tokens_stop_lookup:
  assumes "getCompanyByCode cc = Some co"
    and "net_get net (getRequest (co_url co)) = Inr page"
  shows "((viewState_val page = None \<or> viewState_val page = Some [] \<or>
           viewStateGenerator_val page = None \<or> viewStateGenerator_val page = Some [] \<or>
           eventValidation_val page = None \<or> eventValidation_val page = Some []) \<longrightarrow>
            getPITCBill net refNo cc =
              ([getRequest (co_url co)],
               Failure ''Failed to extract required tokens from PITC portal'' None None)) \<and>
         (\<forall>vs vsg ev tok.
            viewState_val page = Some vs \<and> vs \<noteq> [] \<and>
            viewStateGenerator_val page = Some vsg \<and> vsg \<noteq> [] \<and>
            eventValidation_val page = Some ev \<and> ev \<noteq> [] \<and>
            requestVerificationToken_val page = Some tok \<longrightarrow>
            formData page refNo =
              [(''__VIEWSTATE'', vs), (''__VIEWSTATEGENERATOR'', vsg),
               (''__EVENTVALIDATION'', ev), (''__RequestVerificationToken'', tok),
               (''rbSearchByList'', ''refno''), (''searchTextBox'', refNo),
               (''ruCodeTextBox'', []), (''btnSearch'', ''Search'')] \<and>
            (\<exists>headers. fst (getPITCBill net refNo cc) =
               [getRequest (co_url co),
                POST (co_url co) (toString (formData page refNo)) headers]))"
proof (intro conjI impI allI)
  assume "viewState_val page = None \<or> viewState_val page = Some [] \<or>
           viewStateGenerator_val page = None \<or> viewStateGenerator_val page = Some [] \<or>
           eventValidation_val page = None \<or> eventValidation_val page = Some []"
  then have "falsy (viewState_val page) \<or> falsy (viewStateGenerator_val page)
     \<or> falsy (eventValidation_val page)"
    unfolding falsy_iff by blast
  then show "getPITCBill net refNo cc =
              ([getRequest (co_url co)],
               Failure ''Failed to extract required tokens from PITC portal'' None None)"
    by (rule getPITCBill_tokens_missing [OF assms])
next
  fix vs vsg ev tok
  assume a: "viewState_val page = Some vs \<and> vs \<noteq> [] \<and>
            viewStateGenerator_val page = Some vsg \<and> vsg \<noteq> [] \<and>
            eventValidation_val page = Some ev \<and> ev \<noteq> [] \<and>
            requestVerificationToken_val page = Some tok"
  then show "formData page refNo =
              [(''__VIEWSTATE'', vs), (''__VIEWSTATEGENERATOR'', vsg),
               (''__EVENTVALIDATION'', ev), (''__RequestVerificationToken'', tok),
               (''rbSearchByList'', ''refno''), (''searchTextBox'', refNo),
               (''ruCodeTextBox'', []), (''btnSearch'', ''Search'')]"
    by (simp add: formData_def URLSearchParams_def toUSVString_def)
  from a have "\<not> (falsy (viewState_val page) \<or> falsy (viewStateGenerator_val page)
     \<or> falsy (eventValidation_val page))"
    by (simp add: falsy_iff)
  from getPITCBill_submitted [OF assms this, of refNo]
  show "\<exists>headers. fst (getPITCBill net refNo cc) =
               [getRequest (co_url co),
                POST (co_url co) (toString (formData page refNo)) headers]"
    by (simp add: postRequest_def)
qed

theorem missing_tokens_stop_lookup_witness:
  "getPITCBill (portal (sample_page\<lparr>viewState_val := None\<rparr>) sample_bill_doc)
      ''06113530462901'' (codePoints ''hesco'') =
     ([getRequest ''https://bill.pitc.com.pk/hescobill''],
      Failure ''Failed to extract required tokens from PITC portal'' None None) \<and>
   getPITCBill (portal (sample_page\<lparr>eventValidation_val := Some []\<rparr>) sample_bill_doc)
      ''06113530462901'' (codePoints ''hesco'') =
     ([getRequest ''https://bill.pitc.com.pk/hescobill''],
      Failure ''Failed to extract required tokens from PITC portal'' None None) \<and>
   formData sample_page ''06113530462901'' =
     [(''__VIEWSTATE'', ''dDwtMTA4/w==''), (''__VIEWSTATEGENERATOR'', ''CA0B0334''),
      (''__EVENTVALIDATION'', ''/wEdAAU=''), (''__RequestVerificationToken'', ''tok_1''),
      (''rbSearchByList'', ''refno''), (''searchTextBox'', ''06113530462901''),
      (''ruCodeTextBox'', []), (''btnSearch'', ''Search'')] \<and>
   (\<exists>headers. fst (getPITCBill (portal sample_page sample_bill_doc)
        ''06113530462901'' (codePoints ''hesco'')) =
      [getRequest ''https://bill.pitc.com.pk/hescobill'',
       POST ''https://bill.pitc.com.pk/hescobill''
         (toString (formData sample_page ''06113530462901'')) headers])"
proof -
  have u: "co_url hesco = ''https://bill.pitc.com.pk/hescobill''"
    by (simp add: hesco_def)
  have a: "viewState_val (sample_page\<lparr>viewState_val := None\<rparr>) = None"
    and b: "eventValidation_val (sample_page\<lparr>eventValidation_val := Some []\<rparr>) = Some []"
    by simp_all
  have c: "viewState_val sample_page = Some ''dDwtMTA4/w=='' \<and> ''dDwtMTA4/w=='' \<noteq> [] \<and>
      viewStateGenerator_val sample_page = Some ''CA0B0334'' \<and> ''CA0B0334'' \<noteq> [] \<and>
      eventValidation_val sample_page = Some ''/wEdAAU='' \<and> ''/wEdAAU='' \<noteq> [] \<and>
      requestVerificationToken_val sample_page = Some ''tok_1''"
    by (simp add: sample_page_def)
  note A = missing_tokens_stop_lookup [OF getCompanyByCode_hesco portal_get,
      of "sample_page\<lparr>viewState_val := None\<rparr>" sample_bill_doc "''06113530462901''",
      unfolded u, THEN conjunct1, rule_format]
  note B = missing_tokens_stop_lookup [OF getCompanyByCode_hesco portal_get,
      of "sample_page\<lparr>eventValidation_val := Some []\<rparr>" sample_bill_doc "''06113530462901''",
      unfolded u, THEN conjunct1, rule_format]
  note C = missing_tokens_stop_lookup [OF getCompanyByCode_hesco portal_get,
      of sample_page sample_bill_doc "''06113530462901''",
      unfolded u, THEN conjunct2, rule_format, OF c]
  have 1: "getPITCBill (portal (sample_page\<lparr>viewState_val := None\<rparr>) sample_bill_doc)
      ''06113530462901'' (codePoints ''hesco'') =
     ([getRequest ''https://bill.pitc.com.pk/hescobill''],
      Failure ''Failed to extract required tokens from PITC portal'' None None)"
    using a by (intro A) simp
  have 2: "getPITCBill (portal (sample_page\<lparr>eventValidation_val := Some []\<rparr>) sample_bill_doc)
      ''06113530462901'' (codePoints ''hesco'') =
     ([getRequest ''https://bill.pitc.com.pk/hescobill''],
      Failure ''Failed to extract required tokens from PITC portal'' None None)"
    using b by (intro B) simp
  show ?thesis
    by (intro conjI) (rule 1, rule 2, rule C [THEN conjunct1], rule C [THEN conjunct2])
qed


section \<open>Network faults (C7)\<close>





section \<open>Exceptions during the extraction (C8)\<close>

lemma each_row_fault:
  "each_row (map Inr pre @ Inl e # rest) b =
     (foldl (\<lambda>acc cells. apply_row cells acc) b pre, Some e)"
  by (induction pre arbitrary: b) simp_all

lemma parseBillDetails_rows_unreadable:
  "tableRows doc = Inl e \<Longrightarrow>
   parseBillDetails doc refNo cc =
     (initialBillData refNo cc)\<lparr>parseError := Some (err_message e)\<rparr>"
  by (simp add: parseBillDetails_def parse_try_def Let_def)

lemma parseBillDetails_row_fault:
  "tableRows doc = Inr (map Inr pre @ Inl e # rest) \<Longrightarrow>
   parseBillDetails doc refNo cc =
     (foldl (\<lambda>acc cells. apply_row cells acc) (initialBillData refNo cc) pre)
       \<lparr>parseError := Some (err_message e)\<rparr>"
  by (simp add: parseBillDetails_def parse_try_def Let_def each_row_fault)

lemma parseBillDetails_amount_fault:
  "tableRows doc = Inr (map Inr rows) \<Longrightarrow> amountElement doc = Inl e \<Longrightarrow>
   parseBillDetails doc refNo cc =
     (foldl (\<lambda>acc cells. apply_row cells acc) (initialBillData refNo cc) rows)
       \<lparr>parseError := Some (err_message e)\<rparr>"
  by (simp add: parseBillDetails_def parse_try_def Let_def each_row_ok)

lemma parseBillDetails_html_fault:
  "tableRows doc = Inr (map Inr rows) \<Longrightarrow> amountElement doc = Inr a \<Longrightarrow>
   html doc = Inl e \<Longrightarrow>
   parseBillDetails doc refNo cc =
     (case a of
        None \<Rightarrow> foldl (\<lambda>acc cells. apply_row cells acc) (initialBillData refNo cc) rows
      | Some t \<Rightarrow>
          (foldl (\<lambda>acc cells. apply_row cells acc) (initialBillData refNo cc) rows)
            \<lparr>charges := (charges (foldl (\<lambda>acc cells. apply_row cells acc)
                 (initialBillData refNo cc) rows))\<lparr>displayAmount := Some (trim t)\<rparr>\<rparr>)
       \<lparr>parseError := Some (err_message e)\<rparr>"
  by (simp add: parseBillDetails_def parse_try_def Let_def each_row_ok split: option.splits)

text \<open>
  C8. An exception raised while the bill fields are extracted stays inside
  \<open>parseBillDetails\<close>. Wherever it is raised (when the rows are selected, while a row
  is read, when the amount element is read or when the markup is serialised), the
  record returned holds every field assigned before the exception and the message of
  the exception as \<open>parseError\<close>. The lookup whose response has an empty error region
  returns a success carrying that record.
\<close>

theorem extraction_faults_are_local:
  "((\<exists>page vs vsg ev.
       getCompanyByCode cc = Some co \<and>
       net_get net (getRequest (co_url co)) = Inr page \<and>
       viewState_val page = Some vs \<and> vs \<noteq> [] \<and>
       viewStateGenerator_val page = Some vsg \<and> vsg \<noteq> [] \<and>
       eventValidation_val page = Some ev \<and> ev \<noteq> [] \<and>
       net_post net (postRequest (co_url co) page refNo) = Inr doc \<and>
       trim (ua_text doc) = []) \<longrightarrow>
      snd (getPITCBill net refNo cc) =
        Success refNo (co_code co) (co_name co) (parseBillDetails doc refNo (co_code co))) \<and>
   (\<forall>e. tableRows doc = Inl e \<longrightarrow>
      parseBillDetails doc refNo code =
        (initialBillData refNo code)\<lparr>parseError := Some (err_message e)\<rparr>) \<and>
   (\<forall>pre e rest. tableRows doc = Inr (map Inr pre @ Inl e # rest) \<longrightarrow>
      parseBillDetails doc refNo code =
        (foldl (\<lambda>acc cells. apply_row cells acc) (initialBillData refNo code) pre)
          \<lparr>parseError := Some (err_message e)\<rparr>) \<and>
   (\<forall>rows e. tableRows doc = Inr (map Inr rows) \<and> amountElement doc = Inl e \<longrightarrow>
      parseBillDetails doc refNo code =
        (foldl (\<lambda>acc cells. apply_row cells acc) (initialBillData refNo code) rows)
          \<lparr>parseError := Some (err_message e)\<rparr>) \<and>
   (\<forall>rows a e. tableRows doc = Inr (map Inr rows) \<and> amountElement doc = Inr a \<and>
        html doc = Inl e \<longrightarrow>
      parseBillDetails doc refNo code =
        (case a of
           None \<Rightarrow> foldl (\<lambda>acc cells. apply_row cells acc) (initialBillData refNo code) rows
         | Some t \<Rightarrow>
             (foldl (\<lambda>acc cells. apply_row cells acc) (initialBillData refNo code) rows)
               \<lparr>charges := (charges (foldl (\<lambda>acc cells. apply_row cells acc)
                    (initialBillData refNo code) rows))\<lparr>displayAmount := Some (trim t)\<rparr>\<rparr>)
          \<lparr>parseError := Some (err_message e)\<rparr>)"
proof (intro conjI impI allI)
  assume "\<exists>page vs vsg ev.
       getCompanyByCode cc = Some co \<and>
       net_get net (getRequest (co_url co)) = Inr page \<and>
       viewState_val page = Some vs \<and> vs \<noteq> [] \<and>
       viewStateGenerator_val page = Some vsg \<and> vsg \<noteq> [] \<and>
       eventValidation_val page = Some ev \<and> ev \<noteq> [] \<and>
       net_post net (postRequest (co_url co) page refNo) = Inr doc \<and>
       trim (ua_text doc) = []"
  then obtain page where c: "getCompanyByCode cc = Some co"
    and g: "net_get net (getRequest (co_url co)) = Inr page"
    and t: "\<not> (falsy (viewState_val page) \<or> falsy (viewStateGenerator_val page)
            \<or> falsy (eventValidation_val page))"
    and p: "net_post net (postRequest (co_url co) page refNo) = Inr doc"
    and u: "trim (ua_text doc) = []"
    by (auto simp add: falsy_iff)
  from getPITCBill_submitted [OF c g t, of refNo] p u
  show "snd (getPITCBill net refNo cc) =
        Success refNo (co_code co) (co_name co) (parseBillDetails doc refNo (co_code co))"
    by simp
next
  fix e assume "tableRows doc = Inl e"
  then show "parseBillDetails doc refNo code =
        (initialBillData refNo code)\<lparr>parseError := Some (err_message e)\<rparr>"
    by (rule parseBillDetails_rows_unreadable)
next
  fix pre e rest assume "tableRows doc = Inr (map Inr pre @ Inl e # rest)"
  then show "parseBillDetails doc refNo code =
        (foldl (\<lambda>acc cells. apply_row cells acc) (initialBillData refNo code) pre)
          \<lparr>parseError := Some (err_message e)\<rparr>"
    by (rule parseBillDetails_row_fault)
next
  fix rows e assume "tableRows doc = Inr (map Inr rows) \<and> amountElement doc = Inl e"
  then show "parseBillDetails doc refNo code =
        (foldl (\<lambda>acc cells. apply_row cells acc) (initialBillData refNo code) rows)
          \<lparr>parseError := Some (err_message e)\<rparr>"
    by (simp add: parseBillDetails_amount_fault)
next
  fix rows a e
  assume "tableRows doc = Inr (map Inr rows) \<and> amountElement doc = Inr a \<and> html doc = Inl e"
  then show "parseBillDetails doc refNo code =
        (case a of
           None \<Rightarrow> foldl (\<lambda>acc cells. apply_row cells acc) (initialBillData refNo code) rows
         | Some t \<Rightarrow>
             (foldl (\<lambda>acc cells. apply_row cells acc) (initialBillData refNo code) rows)
               \<lparr>charges := (charges (foldl (\<lambda>acc cells. apply_row cells acc)
                    (initialBillData refNo code) rows))\<lparr>displayAmount := Some (trim t)\<rparr>\<rparr>)
          \<lparr>parseError := Some (err_message e)\<rparr>"
    by (simp add: parseBillDetails_html_fault)
qed

theorem extraction_faults_are_local_witness:
  "snd (getPITCBill (portal sample_page sample_faulty_doc) ''06113530462901'' (codePoints ''hesco'')) =
     Success ''06113530462901'' ''hesco'' ''Hyderabad Electric Supply Company''
       ((initialBillData ''06113530462901'' ''hesco'')
          \<lparr>consumerDetails := \<lparr>name = Some ''A'', address = None, customerId = None\<rparr>,
           parseError := Some ''boom''\<rparr>)"
proof -
  note T = extraction_faults_are_local [of "codePoints ''hesco''" hesco "portal sample_page sample_faulty_doc"
      "''06113530462901''" sample_faulty_doc "''hesco''"]
  have h: "\<exists>page vs vsg ev.
       getCompanyByCode (codePoints ''hesco'') = Some hesco \<and>
       net_get (portal sample_page sample_faulty_doc) (getRequest (co_url hesco)) = Inr page \<and>
       viewState_val page = Some vs \<and> vs \<noteq> [] \<and>
       viewStateGenerator_val page = Some vsg \<and> vsg \<noteq> [] \<and>
       eventValidation_val page = Some ev \<and> ev \<noteq> [] \<and>
       net_post (portal sample_page sample_faulty_doc)
         (postRequest (co_url hesco) page ''06113530462901'') = Inr sample_faulty_doc \<and>
       trim (ua_text sample_faulty_doc) = []"
    by (simp add: getCompanyByCode_hesco portal_get portal_post sample_page_def
        sample_faulty_doc_def trim_def)
  have r: "tableRows sample_faulty_doc =
      Inr (map Inr [[''Name'', ''A'']] @ Inl (JsError None ''boom'') # [Inr [''Address'', ''X'']])"
    by (simp add: sample_faulty_doc_def)
  have c: "co_code hesco = ''hesco''" "co_name hesco = ''Hyderabad Electric Supply Company''"
    by (simp_all add: hesco_def)
  have s: "snd (getPITCBill (portal sample_page sample_faulty_doc) ''06113530462901'' (codePoints ''hesco'')) =
      Success ''06113530462901'' ''hesco'' ''Hyderabad Electric Supply Company''
        (parseBillDetails sample_faulty_doc ''06113530462901'' ''hesco'')"
    using T [THEN conjunct1, rule_format, OF h] unfolding c .
  have p: "parseBillDetails sample_faulty_doc ''06113530462901'' ''hesco'' =
      (foldl (\<lambda>acc cells. apply_row cells acc) (initialBillData ''06113530462901'' ''hesco'')
         [[''Name'', ''A'']])\<lparr>parseError := Some (err_message (JsError None ''boom''))\<rparr>"
    using T [THEN conjunct2, THEN conjunct2, THEN conjunct1, rule_format, OF r] .
  have l: "toLowerCase (trim ''Name'') = ''name''"
    and v: "trim ''A'' = ''A''"
    by (simp_all add: trim_def isWhiteSpace_def js_eval)
  have m: "first_match label_rules ''name'' = Some ConsumerName"
    by (simp add: label_rules_def startsWith_def)
  have a: "apply_row [''Name'', ''A''] (initialBillData ''06113530462901'' ''hesco'') =
      (initialBillData ''06113530462901'' ''hesco'')
         \<lparr>consumerDetails := \<lparr>name = Some ''A'', address = None, customerId = None\<rparr>\<rparr>"
    by (simp add: apply_row_table l v m initialBillData_def)
  show ?thesis unfolding s p by (simp add: a)
qed

section \<open>An unknown company code at the facade (C1)\<close>

lemma getCompanyByCode_invalid: "getCompanyByCode (codePoints ''invalid'') = None"
  by (simp add: getCompanyByCode_def COMPANIES_def cp_eval)

lemma supported_list:
  "join '', '' (map (\<lambda>k. toLowerCase k) (map fst COMPANIES)) =
     ''hesco, lesco, fesco, iesco, mepco, gepco, pesco, qesco, sepco''"
  by (simp add: COMPANIES_def js_eval)

lemma valid_sample_refNo:
  "validateReferenceNumber (Some ''06113530462901'') = Valid ''06113530462901''"
  by (simp add: validateReferenceNumber_def trim_def isWhiteSpace_def isDigit_def)

text \<open>
  C1. A request whose reference number is valid and whose company code is not
  registered is answered with a failure body whose message lists the nine registered
  codes, but with the status the facade gives to every failed lookup, 404, and not
  with 400: the request \<open>refNo=06113530462901&company=invalid\<close> evaluates as
  follows, whatever the network does.
\<close>

theorem unknown_company_gets_404:
  "get_check_bill net \<lparr>q_refNo = Some ''06113530462901'', q_company = Some (codePoints ''invalid'')\<rparr> =
     ([], \<lparr>status = 404,
           body = Failure ''Invalid company code. Supported: hesco, lesco, fesco, iesco, mepco, gepco, pesco, qesco, sepco''
                    None None\<rparr>)"
  by (simp add: get_check_bill_def valid_sample_refNo getPITCBill_def getPITCBill_try_def
      getCompanyByCode_invalid supported_list [simplified])


section \<open>A page without verification token (C2)\<close>

lemma sample_body:
  "toString (formData (sample_page\<lparr>requestVerificationToken_val := None\<rparr>) ''06113530462901'') =
     ''__VIEWSTATE=dDwtMTA4%2Fw%3D%3D&__VIEWSTATEGENERATOR=CA0B0334&__EVENTVALIDATION=%2FwEdAAU%3D&__RequestVerificationToken=undefined&rbSearchByList=refno&searchTextBox=06113530462901&ruCodeTextBox=&btnSearch=Search''"
  by (simp add: toString_def formData_def URLSearchParams_def toUSVString_def sample_page_def
      formEncode_def formEncodeChar_def isFormSafe_def utf8Bytes_def percentEncodeByte_def
      hexDigit_def)

text \<open>
  C2. When the page has the three required tokens and no verification token, the
  lookup goes on to the form submission, but the field \<open>__RequestVerificationToken\<close>
  of the form does not hold the empty string: the absent value is converted to the
  text \<open>undefined\<close>, and the body sent holds
  \<open>__RequestVerificationToken=undefined\<close>.
\<close>

theorem absent_token_sent_as_undefined:
  "map_of (formData (sample_page\<lparr>requestVerificationToken_val := None\<rparr>) ''06113530462901'')
      ''__RequestVerificationToken'' = Some ''undefined'' \<and>
   fst (getPITCBill (portal (sample_page\<lparr>requestVerificationToken_val := None\<rparr>) sample_bill_doc)
          ''06113530462901'' (codePoints ''hesco'')) =
     [GET ''https://bill.pitc.com.pk/hescobill'' [(''User-Agent'', userAgent)],
      POST ''https://bill.pitc.com.pk/hescobill''
        ''__VIEWSTATE=dDwtMTA4%2Fw%3D%3D&__VIEWSTATEGENERATOR=CA0B0334&__EVENTVALIDATION=%2FwEdAAU%3D&__RequestVerificationToken=undefined&rbSearchByList=refno&searchTextBox=06113530462901&ruCodeTextBox=&btnSearch=Search''
        [(''Content-Type'', ''application/x-www-form-urlencoded''),
         (''User-Agent'', userAgent),
         (''Referer'', ''https://bill.pitc.com.pk/hescobill''),
         (''Cookie'', ''ASP.NET_SessionId=abc; path=/'')]]"
proof
  show "map_of (formData (sample_page\<lparr>requestVerificationToken_val := None\<rparr>) ''06113530462901'')
      ''__RequestVerificationToken'' = Some ''undefined''"
    by (simp add: formData_def URLSearchParams_def toUSVString_def)
next
  let ?page = "sample_page\<lparr>requestVerificationToken_val := None\<rparr>"
  have t: "\<not> (falsy (viewState_val ?page) \<or> falsy (viewStateGenerator_val ?page)
            \<or> falsy (eventValidation_val ?page))"
    by (simp add: falsy_iff sample_page_def)
  have u: "co_url hesco = ''https://bill.pitc.com.pk/hescobill''"
    by (simp add: hesco_def)
  have c: "set_cookie ?page = Some [''ASP.NET_SessionId=abc; path=/'']"
    by (simp add: sample_page_def)
  from getPITCBill_submitted [OF getCompanyByCode_hesco portal_get t, of sample_bill_doc
      "''06113530462901''"]
  show "fst (getPITCBill (portal ?page sample_bill_doc) ''06113530462901'' (codePoints ''hesco'')) =
     [GET ''https://bill.pitc.com.pk/hescobill'' [(''User-Agent'', userAgent)],
      POST ''https://bill.pitc.com.pk/hescobill''
        ''__VIEWSTATE=dDwtMTA4%2Fw%3D%3D&__VIEWSTATEGENERATOR=CA0B0334&__EVENTVALIDATION=%2FwEdAAU%3D&__RequestVerificationToken=undefined&rbSearchByList=refno&searchTextBox=06113530462901&ruCodeTextBox=&btnSearch=Search''
        [(''Content-Type'', ''application/x-www-form-urlencoded''),
         (''User-Agent'', userAgent),
         (''Referer'', ''https://bill.pitc.com.pk/hescobill''),
         (''Cookie'', ''ASP.NET_SessionId=abc; path=/'')]]"
    by (simp add: u getRequest_def postRequest_def sample_body c)
qed

end
